theory Spec2Isabelle
  imports Main "HOL-Library.Word"
begin

section \<open>The App Runner VPC Ingress Connection construct\<close>

text \<open>
  A shallow embedding of \<^verbatim>\<open>packages/@aws-cdk/aws-apprunner-alpha/lib/vpc-ingress-connection.ts\<close>:
  the constructor of \<^verbatim>\<open>VpcIngressConnection\<close> with its two name checks, and the two import
  paths \<^verbatim>\<open>fromVpcIngressConnectionAttributes\<close> and \<^verbatim>\<open>fromArn\<close>.

  The construct tree (the \<^verbatim>\<open>scope\<close> and \<^verbatim>\<open>id\<close> arguments) is not modelled: no line of the file
  reads it. What is modelled of the outside world is the list of resource requests handed to
  the provisioning layer, threaded through every entry point as explicit state.
\<close>

subsection \<open>Strings\<close>

text \<open>
  A JavaScript string is a sequence of UTF-16 code units; \<^verbatim>\<open>.length\<close> counts code units and a
  regular expression without the \<^verbatim>\<open>u\<close> flag matches code unit by code unit.
\<close>

type_synonym code_unit = "16 word"
type_synonym jsstring = "code_unit list"

definition ascii :: "string \<Rightarrow> jsstring" where
  "ascii s = map (\<lambda>c. of_nat (of_char c)) s"

definition slash :: code_unit where
  "slash = 0x2F"

subsection \<open>Deferred values\<close>

datatype attribute = AttrVpcIngressConnectionArn | AttrDomainName | AttrStatus

text \<open>
  What a value that is only known at deployment stands for: an opaque token made elsewhere in
  the graph, the "no value" marker that lets the provisioning layer assign a name, the
  reference to and the attributes of the n-th emitted request, and the deferred forms of
  splitting and selecting.
\<close>

datatype deferred =
    Token nat
  | NoValue
  | Ref nat
  | GetAtt nat attribute
  | FnSplit code_unit deferred
  | FnSelect nat deferred

text \<open>
  Modelled from the spec: the token encoding of \<^verbatim>\<open>aws-cdk-lib/core\<close> is missing from the
  sources at hand. The spec describes a possibly deferred string as the tagged union
  \<^verbatim>\<open>Concrete(T) | Pending(resolutionHandle)\<close>.
\<close>

datatype cdk_string = Concrete jsstring | Pending deferred

datatype cdk_list = ConcreteList "jsstring list" | PendingList deferred

text \<open>
  Modelled from the spec: \<^verbatim>\<open>Token.isUnresolved\<close> of \<^verbatim>\<open>aws-cdk-lib/core\<close> is missing; it is
  the test for the \<^verbatim>\<open>Pending\<close> variant.
\<close>

fun Token_isUnresolved :: "cdk_string \<Rightarrow> bool" where
  "Token_isUnresolved (Pending t) = True"
| "Token_isUnresolved (Concrete s) = False"

subsection \<open>Splitting and selecting\<close>

text \<open>
  \<^verbatim>\<open>String.prototype.split\<close> with a one-character separator: the segments between the
  occurrences of the separator, in order; a string without the separator is its own single
  segment, and the empty string gives one empty segment.
\<close>

fun split_at :: "code_unit \<Rightarrow> jsstring \<Rightarrow> jsstring \<Rightarrow> jsstring list" where
  "split_at d cur [] = [rev cur]"
| "split_at d cur (c # cs) =
     (if c = d then rev cur # split_at d [] cs else split_at d (c # cur) cs)"

definition js_split :: "code_unit \<Rightarrow> jsstring \<Rightarrow> jsstring list" where
  "js_split d s = split_at d [] s"

text \<open>
  Modelled from the spec: \<^verbatim>\<open>Fn.split\<close> and \<^verbatim>\<open>Fn.select\<close> of \<^verbatim>\<open>aws-cdk-lib/core\<close> are
  missing. The spec: split on the separator and select a segment, uniformly for a concrete
  string and for a placeholder, where the extraction is itself a placeholder. Indexing a
  JavaScript array out of range gives \<^verbatim>\<open>undefined\<close>, here \<open>None\<close>.
\<close>

fun Fn_split :: "code_unit \<Rightarrow> cdk_string \<Rightarrow> cdk_list" where
  "Fn_split delimiter (Concrete s) = ConcreteList (js_split delimiter s)"
| "Fn_split delimiter (Pending t) = PendingList (FnSplit delimiter t)"

fun Fn_select :: "nat \<Rightarrow> cdk_list \<Rightarrow> cdk_string option" where
  "Fn_select index (ConcreteList xs) =
     (if index < length xs then Some (Concrete (xs ! index)) else None)"
| "Fn_select index (PendingList t) = Some (Pending (FnSelect index t))"

subsection \<open>The data of the construct\<close>

record IService =
  serviceArn :: cdk_string

record IVpc =
  vpcId :: cdk_string

record IInterfaceVpcEndpoint =
  vpcEndpointId :: cdk_string

record VpcIngressConnectionProps =
  props_vpcIngressConnectionName :: "cdk_string option"
  service :: IService
  vpc :: IVpc
  interfaceVpcEndpoint :: IInterfaceVpcEndpoint

record VpcIngressConnectionAttributes =
  attrs_vpcIngressConnectionArn :: cdk_string
  attrs_vpcIngressConnectionName :: cdk_string
  attrs_domainName :: cdk_string
  attrs_status :: cdk_string

text \<open>The properties given to \<^verbatim>\<open>CfnVpcIngressConnection\<close>: the resource request.\<close>

record IngressVpcConfiguration =
  cfn_vpcEndpointId :: cdk_string
  cfn_vpcId :: cdk_string

record CfnVpcIngressConnectionProps =
  ingressVpcConfiguration :: IngressVpcConfiguration
  cfn_serviceArn :: cdk_string
  cfn_vpcIngressConnectionName :: cdk_string

text \<open>
  The four readable fields of a connection. A field the object does not have (the import
  by ARN declares neither \<^verbatim>\<open>domainName\<close> nor \<^verbatim>\<open>status\<close>) or that is \<^verbatim>\<open>undefined\<close> is
  \<open>None\<close>.
\<close>

record IVpcIngressConnection =
  vpcIngressConnectionArn :: "cdk_string option"
  vpcIngressConnectionName :: "cdk_string option"
  domainName :: "cdk_string option"
  status :: "cdk_string option"

type_synonym provisioning = "CfnVpcIngressConnectionProps list"

subsection \<open>Errors\<close>

text \<open>
  The two \<^verbatim>\<open>throw new Error(...)\<close> of the constructor, each with the value its message
  interpolates.
\<close>

datatype error = InvalidNameLength nat | InvalidNameFormat jsstring

function decimal :: "nat \<Rightarrow> string" where
  "decimal n =
     (if n < 10 then [char_of (48 + n)]
      else decimal (n div 10) @ [char_of (48 + n mod 10)])"
  by pat_completeness auto
termination
  by (relation "measure id") auto

fun message :: "error \<Rightarrow> jsstring" where
  "message (InvalidNameLength n) =
     ascii ''`vpcIngressConnectionName` must be between 4 and 40 characters, got: ''
       @ ascii (decimal n) @ ascii '' characters.''"
| "message (InvalidNameFormat name) =
     ascii (''`vpcIngressConnectionName` must start with an alphanumeric character and ''
       @ ''contain only alphanumeric characters, hyphens, or underscores after that, got: '')
       @ name @ ascii ''.''"

subsection \<open>The name pattern\<close>

text \<open>
  The regular expression \<^verbatim>\<open>/^[A-Za-z0-9][A-Za-z0-9\-_]*$/\<close>: a character class is a list of
  ranges and single characters. Without the \<^verbatim>\<open>m\<close> flag \<^verbatim>\<open>^\<close> and \<^verbatim>\<open>$\<close> match only at the two
  ends of the input, so the starred class has to consume everything after the first
  character.
\<close>

datatype class_item = Range code_unit code_unit | Single code_unit

fun item_matches :: "class_item \<Rightarrow> code_unit \<Rightarrow> bool" where
  "item_matches (Range lo hi) c = (lo \<le> c \<and> c \<le> hi)"
| "item_matches (Single x) c = (c = x)"

definition class_matches :: "class_item list \<Rightarrow> code_unit \<Rightarrow> bool" where
  "class_matches cls c = list_ex (\<lambda>i. item_matches i c) cls"

definition first_class :: "class_item list" where
  "first_class = [Range 0x41 0x5A, Range 0x61 0x7A, Range 0x30 0x39]"

definition rest_class :: "class_item list" where
  "rest_class = [Range 0x41 0x5A, Range 0x61 0x7A, Range 0x30 0x39, Single 0x2D, Single 0x5F]"

fun star_to_end :: "class_item list \<Rightarrow> jsstring \<Rightarrow> bool" where
  "star_to_end cls [] = True"
| "star_to_end cls (c # cs) = (class_matches cls c \<and> star_to_end cls cs)"

fun name_pattern_test :: "jsstring \<Rightarrow> bool" where
  "name_pattern_test [] = False"
| "name_pattern_test (c # cs) = (class_matches first_class c \<and> star_to_end rest_class cs)"

subsection \<open>The constructor\<close>

text \<open>
  Modelled from the spec: the base class \<^verbatim>\<open>cdk.Resource\<close> is missing. The name the request
  carries is the given name, or a placeholder for the assigned name when none is given.
\<close>

fun Resource_physicalName :: "cdk_string option \<Rightarrow> cdk_string" where
  "Resource_physicalName (Some name) = name"
| "Resource_physicalName None = Pending NoValue"

text \<open>
  Lines 146 to 159: the checks of a name that is given and resolved. \<open>None\<close> is falling
  through to the creation of the resource.
\<close>

fun check_name :: "cdk_string option \<Rightarrow> error option" where
  "check_name None = None"
| "check_name (Some v) =
     (if Token_isUnresolved v then None
      else case v of
        Concrete name \<Rightarrow>
          (if length name < 4 \<or> length name > 40 then Some (InvalidNameLength (length name))
           else if \<not> name_pattern_test name then Some (InvalidNameFormat name)
           else None)
      | Pending t \<Rightarrow> None)"

text \<open>
  Modelled from the spec: \<^verbatim>\<open>CfnVpcIngressConnection\<close> is missing. Creating it hands the
  request to the provisioning layer; its reference and its three attributes are
  placeholders for what the layer reports for that request.
\<close>

definition CfnVpcIngressConnection_new ::
    "CfnVpcIngressConnectionProps \<Rightarrow> provisioning \<Rightarrow> nat \<times> provisioning" where
  "CfnVpcIngressConnection_new request st = (length st, st @ [request])"

definition VpcIngressConnection_constructor ::
    "VpcIngressConnectionProps \<Rightarrow> provisioning \<Rightarrow> (error + IVpcIngressConnection) \<times> provisioning" where
  "VpcIngressConnection_constructor props st =
     (let physicalName = Resource_physicalName (props_vpcIngressConnectionName props) in
      case check_name (props_vpcIngressConnectionName props) of
        Some e \<Rightarrow> (Inl e, st)
      | None \<Rightarrow>
          (let (resource, st') = CfnVpcIngressConnection_new
                 \<lparr> ingressVpcConfiguration =
                     \<lparr> cfn_vpcEndpointId = vpcEndpointId (interfaceVpcEndpoint props),
                       cfn_vpcId = vpcId (vpc props) \<rparr>,
                   cfn_serviceArn = serviceArn (service props),
                   cfn_vpcIngressConnectionName = physicalName \<rparr> st
           in (Inr \<lparr> vpcIngressConnectionArn = Some (Pending (GetAtt resource AttrVpcIngressConnectionArn)),
                     vpcIngressConnectionName = Some (Pending (Ref resource)),
                     domainName = Some (Pending (GetAtt resource AttrDomainName)),
                     status = Some (Pending (GetAtt resource AttrStatus)) \<rparr>, st')))"

subsection \<open>The imports\<close>

definition fromVpcIngressConnectionAttributes ::
    "VpcIngressConnectionAttributes \<Rightarrow> provisioning \<Rightarrow> (error + IVpcIngressConnection) \<times> provisioning" where
  "fromVpcIngressConnectionAttributes attrs st =
     (Inr \<lparr> vpcIngressConnectionArn = Some (attrs_vpcIngressConnectionArn attrs),
            vpcIngressConnectionName = Some (attrs_vpcIngressConnectionName attrs),
            domainName = Some (attrs_domainName attrs),
            status = Some (attrs_status attrs) \<rparr>, st)"

definition fromArn ::
    "cdk_string \<Rightarrow> provisioning \<Rightarrow> (error + IVpcIngressConnection) \<times> provisioning" where
  "fromArn arn st =
     (let resourceParts = Fn_split slash arn;
          name = Fn_select 0 resourceParts
      in (Inr \<lparr> vpcIngressConnectionArn = Some arn,
                vpcIngressConnectionName = name,
                domainName = None,
                status = None \<rparr>, st))"

subsection \<open>The naming rule in the words of the specification\<close>

text \<open>
  The specification's side of the comparison: the ASCII letters and digits listed one by
  one, and the two further characters allowed after the first.
\<close>

definition ascii_alphanumeric :: "code_unit \<Rightarrow> bool" where
  "ascii_alphanumeric c =
     (c \<in> set (ascii ''ABCDEFGHIJKLMNOPQRSTUVWXYZabcdefghijklmnopqrstuvwxyz0123456789''))"

definition name_character :: "code_unit \<Rightarrow> bool" where
  "name_character c = (ascii_alphanumeric c \<or> c \<in> set (ascii ''-_''))"

section \<open>Properties\<close>

subsection \<open>The character classes of the pattern\<close>

lemma range_enum:
  "(lo \<le> c \<and> c \<le> hi) = (c \<in> set (map of_nat [unat lo..<Suc (unat hi)]))" for c :: code_unit
proof -
  have "(lo \<le> c \<and> c \<le> hi) = (unat c \<in> {unat lo..<Suc (unat hi)})"
    by (auto simp: word_le_nat_alt)
  also have "\<dots> = (c \<in> of_nat ` {unat lo..<Suc (unat hi)})"
  proof
    assume "unat c \<in> {unat lo..<Suc (unat hi)}"
    then have "of_nat (unat c) \<in> (of_nat ` {unat lo..<Suc (unat hi)} :: code_unit set)"
      by (rule imageI)
    then show "c \<in> of_nat ` {unat lo..<Suc (unat hi)}" by simp
  next
    assume "c \<in> of_nat ` {unat lo..<Suc (unat hi)}"
    then obtain n where n: "n \<in> {unat lo..<Suc (unat hi)}" and c: "c = of_nat n" by auto
    have "unat hi < 2 ^ 16" using unsigned_less [of hi] by simp
    with n have "n < 2 ^ 16" by simp
    then have "unat (of_nat n :: code_unit) = n"
      by (simp add: unat_of_nat)
    with n c show "unat c \<in> {unat lo..<Suc (unat hi)}" by simp
  qed
  finally show ?thesis by (simp only: set_map set_upt)
qed

lemma first_class_alnum: "class_matches first_class c = ascii_alphanumeric c"
  unfolding class_matches_def first_class_def ascii_alphanumeric_def ascii_def
  apply (simp only: list_ex_Nil_iff list_ex_Cons_iff item_matches.simps range_enum)
  by (simp add: upt_rec)

lemma rest_class_name_character: "class_matches rest_class c = name_character c"
  unfolding class_matches_def rest_class_def name_character_def ascii_alphanumeric_def ascii_def
  apply (simp only: list_ex_Nil_iff list_ex_Cons_iff item_matches.simps range_enum)
  by (simp add: upt_rec)

lemma star_to_end_rest_class: "star_to_end rest_class cs = list_all name_character cs"
  by (induction cs) (simp_all add: rest_class_name_character)

lemma name_pattern_test_Cons:
  "name_pattern_test (c # cs) = (ascii_alphanumeric c \<and> list_all name_character cs)"
  by (simp add: star_to_end_rest_class first_class_alnum)

subsection \<open>The first segment of a split\<close>

lemma split_at_hd:
  "split_at d cur s \<noteq> [] \<and> hd (split_at d cur s) = rev cur @ takeWhile (\<lambda>c. c \<noteq> d) s"
  by (induction s arbitrary: cur) simp_all

lemma js_split_first:
  "0 < length (js_split d s) \<and> js_split d s ! 0 = takeWhile (\<lambda>c. c \<noteq> d) s"
  using split_at_hd [of d "[]" s] by (cases "split_at d [] s") (simp_all add: js_split_def)

lemma Fn_select_split_Concrete:
  "Fn_select 0 (Fn_split d (Concrete s)) = Some (Concrete (takeWhile (\<lambda>c. c \<noteq> d) s))"
  using js_split_first [of d s] by simp

text \<open>
  The segments are what is between the separators: none of them contains the separator,
  and putting the separator back after each of them gives the input, followed by one more
  separator.
\<close>

lemma split_at_rejoin:
  "concat (map (\<lambda>x. x @ [d]) (split_at d cur s)) = rev cur @ s @ [d]"
  by (induction s arbitrary: cur) simp_all

lemma split_at_segments:
  "d \<notin> set cur \<Longrightarrow> \<forall>x \<in> set (split_at d cur s). d \<notin> set x"
proof (induction s arbitrary: cur)
  case Nil
  then show ?case by simp
next
  case (Cons a s)
  show ?case
  proof (cases "a = d")
    case True
    with Cons.IH [of "[]"] Cons.prems show ?thesis by simp
  next
    case False
    with Cons.IH [of "a # cur"] Cons.prems show ?thesis by simp
  qed
qed

lemma js_split_rejoin: "concat (map (\<lambda>x. x @ [d]) (js_split d s)) = s @ [d]"
  by (simp add: js_split_def split_at_rejoin)

lemma js_split_segments: "x \<in> set (js_split d s) \<Longrightarrow> d \<notin> set x"
  using split_at_segments [of d "[]" s] by (simp add: js_split_def)

subsection \<open>The two outcomes of the constructor\<close>

lemma constructor_error:
  "check_name (props_vpcIngressConnectionName props) = Some e \<Longrightarrow>
   VpcIngressConnection_constructor props st = (Inl e, st)"
  by (simp add: VpcIngressConnection_constructor_def)

lemma constructor_success:
  "check_name (props_vpcIngressConnectionName props) = None \<Longrightarrow>
   VpcIngressConnection_constructor props st =
     (Inr \<lparr> vpcIngressConnectionArn = Some (Pending (GetAtt (length st) AttrVpcIngressConnectionArn)),
            vpcIngressConnectionName = Some (Pending (Ref (length st))),
            domainName = Some (Pending (GetAtt (length st) AttrDomainName)),
            status = Some (Pending (GetAtt (length st) AttrStatus)) \<rparr>,
      st @ [\<lparr> ingressVpcConfiguration =
                \<lparr> cfn_vpcEndpointId = vpcEndpointId (interfaceVpcEndpoint props),
                  cfn_vpcId = vpcId (vpc props) \<rparr>,
              cfn_serviceArn = serviceArn (service props),
              cfn_vpcIngressConnectionName =
                Resource_physicalName (props_vpcIngressConnectionName props) \<rparr>])"
  by (simp add: VpcIngressConnection_constructor_def CfnVpcIngressConnection_new_def)

subsection \<open>Creating a connection\<close>

text \<open>
  C1: a concrete name of 4 to 40 code units whose first character is an ASCII letter or
  digit and whose other characters are ASCII letters, digits, hyphens or underscores is
  accepted: the constructor returns a connection, and the one request it hands over carries
  that name.
\<close>

theorem constructor_accepts_valid_name:
  assumes "props_vpcIngressConnectionName props = Some (Concrete name)"
    and "4 \<le> length name" and "length name \<le> 40"
    and "name = c # cs" and "ascii_alphanumeric c" and "list_all name_character cs"
  shows "\<exists>h request. VpcIngressConnection_constructor props st = (Inr h, st @ [request])
           \<and> cfn_vpcIngressConnectionName request = Concrete name"
proof -
  have "name_pattern_test name"
    using assms(4-6) by (simp only: name_pattern_test_Cons)
  with assms(1-3) have "check_name (props_vpcIngressConnectionName props) = None"
    by simp
  from constructor_success [OF this, of st] assms(1) show ?thesis
    by simp
qed


theorem constructor_accepts_valid_name_witness:
  "4 \<le> length (ascii ''Valid-Name_1'') \<and> length (ascii ''Valid-Name_1'') \<le> 40
   \<and> ascii_alphanumeric (hd (ascii ''Valid-Name_1''))
   \<and> list_all name_character (tl (ascii ''Valid-Name_1''))
   \<and> (\<exists>h request.
        VpcIngressConnection_constructor
          \<lparr> props_vpcIngressConnectionName = Some (Concrete (ascii ''Valid-Name_1'')),
            service = \<lparr> serviceArn = Pending (Token 0) \<rparr>,
            vpc = \<lparr> vpcId = Pending (Token 1) \<rparr>,
            interfaceVpcEndpoint = \<lparr> vpcEndpointId = Pending (Token 2) \<rparr> \<rparr> []
          = (Inr h, [] @ [request])
        \<and> cfn_vpcIngressConnectionName request = Concrete (ascii ''Valid-Name_1''))"
proof -
  have len: "4 \<le> length (ascii ''Valid-Name_1'')" "length (ascii ''Valid-Name_1'') \<le> 40"
    by (simp_all add: ascii_def)
  have shape: "ascii ''Valid-Name_1'' = hd (ascii ''Valid-Name_1'') # tl (ascii ''Valid-Name_1'')"
    by (simp add: ascii_def)
  have first: "ascii_alphanumeric (hd (ascii ''Valid-Name_1''))"
    by (simp add: ascii_alphanumeric_def ascii_def)
  have rest: "list_all name_character (tl (ascii ''Valid-Name_1''))"
    by (simp add: name_character_def ascii_alphanumeric_def ascii_def)
  show ?thesis
    using len first rest
      constructor_accepts_valid_name [OF _ len shape first rest,
        of "\<lparr> props_vpcIngressConnectionName = Some (Concrete (ascii ''Valid-Name_1'')),
            service = \<lparr> serviceArn = Pending (Token 0) \<rparr>,
            vpc = \<lparr> vpcId = Pending (Token 1) \<rparr>,
            interfaceVpcEndpoint = \<lparr> vpcEndpointId = Pending (Token 2) \<rparr> \<rparr>" "[]"]
    by simp
qed

text \<open>
  C3: a concrete name shorter than 4 or longer than 40 code units is refused with
  \<open>InvalidNameLength\<close>, whatever its characters are (the length is tested first, so a
  name that also breaks the pattern gets this error), and the message gives the length of
  the name.
\<close>

theorem constructor_rejects_bad_length:
  assumes "props_vpcIngressConnectionName props = Some (Concrete name)"
    and "length name < 4 \<or> length name > 40"
  shows "VpcIngressConnection_constructor props st = (Inl (InvalidNameLength (length name)), st)
    \<and> message (InvalidNameLength (length name)) =
        ascii ''`vpcIngressConnectionName` must be between 4 and 40 characters, got: ''
          @ ascii (decimal (length name)) @ ascii '' characters.''"
proof -
  from assms have "check_name (props_vpcIngressConnectionName props)
      = Some (InvalidNameLength (length name))"
    by simp
  from constructor_error [OF this] show ?thesis
    by simp
qed

theorem constructor_rejects_bad_length_witness:
  "VpcIngressConnection_constructor
     \<lparr> props_vpcIngressConnectionName = Some (Concrete (ascii ''-a'')),
       service = \<lparr> serviceArn = Pending (Token 0) \<rparr>,
       vpc = \<lparr> vpcId = Pending (Token 1) \<rparr>,
       interfaceVpcEndpoint = \<lparr> vpcEndpointId = Pending (Token 2) \<rparr> \<rparr> []
     = (Inl (InvalidNameLength 2), [])
   \<and> \<not> name_pattern_test (ascii ''-a'')
   \<and> message (InvalidNameLength 2) =
       ascii ''`vpcIngressConnectionName` must be between 4 and 40 characters, got: 2 characters.''"
proof -
  have len: "length (ascii ''-a'') < 4 \<or> length (ascii ''-a'') > 40"
    by (simp add: ascii_def)
  have two: "length (ascii ''-a'') = 2"
    by (simp add: ascii_def)
  have dec: "decimal 2 = ''2''"
    by code_simp
  have pat: "\<not> name_pattern_test (ascii ''-a'')"
    by (simp add: ascii_def class_matches_def first_class_def)
  show ?thesis
    using pat constructor_rejects_bad_length [OF _ len,
        of "\<lparr> props_vpcIngressConnectionName = Some (Concrete (ascii ''-a'')),
            service = \<lparr> serviceArn = Pending (Token 0) \<rparr>,
            vpc = \<lparr> vpcId = Pending (Token 1) \<rparr>,
            interfaceVpcEndpoint = \<lparr> vpcEndpointId = Pending (Token 2) \<rparr> \<rparr>" "[]"]
    by (simp add: two dec ascii_def)
qed

text \<open>
  C4: a concrete name of 4 to 40 code units whose first character is not an ASCII letter or
  digit, or that has a character other than ASCII letters, digits, hyphen and underscore,
  is refused with \<open>InvalidNameFormat\<close>, and the message gives the name.
\<close>

theorem constructor_rejects_bad_format:
  assumes "props_vpcIngressConnectionName props = Some (Concrete name)"
    and "4 \<le> length name" and "length name \<le> 40"
    and "\<not> ascii_alphanumeric (hd name) \<or> list_ex (\<lambda>c. \<not> name_character c) name"
  shows "VpcIngressConnection_constructor props st = (Inl (InvalidNameFormat name), st)
    \<and> message (InvalidNameFormat name) =
        ascii (''`vpcIngressConnectionName` must start with an alphanumeric character and ''
          @ ''contain only alphanumeric characters, hyphens, or underscores after that, got: '')
          @ name @ ascii ''.''"
proof -
  from assms(2) obtain c cs where name: "name = c # cs"
    by (cases name) auto
  have "\<not> (ascii_alphanumeric c \<and> list_all name_character cs)"
  proof
    assume ok: "ascii_alphanumeric c \<and> list_all name_character cs"
    then have "name_character c"
      by (simp add: name_character_def)
    with ok have "list_all name_character name"
      by (simp add: name)
    then have "\<not> list_ex (\<lambda>c. \<not> name_character c) name"
      by (simp add: list_all_iff list_ex_iff)
    with assms(4) ok show False
      by (simp add: name)
  qed
  then have "\<not> name_pattern_test name"
    by (simp only: name name_pattern_test_Cons not_False_eq_True)
  with assms(1-3) have "check_name (props_vpcIngressConnectionName props)
      = Some (InvalidNameFormat name)"
    by simp
  from constructor_error [OF this] show ?thesis
    by simp
qed

theorem constructor_rejects_bad_format_witness:
  "VpcIngressConnection_constructor
     \<lparr> props_vpcIngressConnectionName = Some (Concrete (ascii ''-abc'')),
       service = \<lparr> serviceArn = Pending (Token 0) \<rparr>,
       vpc = \<lparr> vpcId = Pending (Token 1) \<rparr>,
       interfaceVpcEndpoint = \<lparr> vpcEndpointId = Pending (Token 2) \<rparr> \<rparr> []
     = (Inl (InvalidNameFormat (ascii ''-abc'')), [])
   \<and> message (InvalidNameFormat (ascii ''-abc'')) =
       ascii (''`vpcIngressConnectionName` must start with an alphanumeric character and ''
         @ ''contain only alphanumeric characters, hyphens, or underscores after that, got: -abc.'')"
proof -
  have len: "4 \<le> length (ascii ''-abc'')" "length (ascii ''-abc'') \<le> 40"
    by (simp_all add: ascii_def)
  have bad: "\<not> ascii_alphanumeric (hd (ascii ''-abc''))
      \<or> list_ex (\<lambda>c. \<not> name_character c) (ascii ''-abc'')"
    by (simp add: ascii_alphanumeric_def ascii_def)
  show ?thesis
    using constructor_rejects_bad_format [OF _ len bad,
        of "\<lparr> props_vpcIngressConnectionName = Some (Concrete (ascii ''-abc'')),
            service = \<lparr> serviceArn = Pending (Token 0) \<rparr>,
            vpc = \<lparr> vpcId = Pending (Token 1) \<rparr>,
            interfaceVpcEndpoint = \<lparr> vpcEndpointId = Pending (Token 2) \<rparr> \<rparr>" "[]"]
    by (simp add: ascii_def)
qed

text \<open>
  C5: a name that is a placeholder is not checked, neither for its length nor against the
  pattern, whatever it resolves to later: the constructor returns a connection and hands
  over one request, which carries the placeholder untouched.
\<close>

theorem constructor_skips_checks_for_placeholder:
  "check_name (Some (Pending t)) = None
   \<and> VpcIngressConnection_constructor (props\<lparr> props_vpcIngressConnectionName := Some (Pending t) \<rparr>) st =
     (Inr \<lparr> vpcIngressConnectionArn = Some (Pending (GetAtt (length st) AttrVpcIngressConnectionArn)),
            vpcIngressConnectionName = Some (Pending (Ref (length st))),
            domainName = Some (Pending (GetAtt (length st) AttrDomainName)),
            status = Some (Pending (GetAtt (length st) AttrStatus)) \<rparr>,
      st @ [\<lparr> ingressVpcConfiguration =
                \<lparr> cfn_vpcEndpointId = vpcEndpointId (interfaceVpcEndpoint props),
                  cfn_vpcId = vpcId (vpc props) \<rparr>,
              cfn_serviceArn = serviceArn (service props),
              cfn_vpcIngressConnectionName = Pending t \<rparr>])"
  using constructor_success [of "props\<lparr> props_vpcIngressConnectionName := Some (Pending t) \<rparr>" st]
  by simp

text \<open>
  C9: the constructor has two outcomes only. Either it returns a connection whose four
  fields are all bound and exactly one request has been handed over, or it fails and no
  request has been handed over.
\<close>

theorem constructor_all_or_nothing:
  "(\<exists>h request. VpcIngressConnection_constructor props st = (Inr h, st @ [request])
      \<and> vpcIngressConnectionArn h \<noteq> None \<and> vpcIngressConnectionName h \<noteq> None
      \<and> domainName h \<noteq> None \<and> status h \<noteq> None)
   \<or> (\<exists>e. VpcIngressConnection_constructor props st = (Inl e, st))"
proof (cases "check_name (props_vpcIngressConnectionName props)")
  case None
  from constructor_success [OF this, of st] show ?thesis
    by simp
next
  case (Some e)
  from constructor_error [OF this, of st] show ?thesis
    by simp
qed

text \<open>
  C10: the empty string is a name that is given: it is refused for its length, 0, and does
  not fall back to the name assigned by the provisioning layer.
\<close>

theorem constructor_empty_name_is_checked:
  "VpcIngressConnection_constructor (props\<lparr> props_vpcIngressConnectionName := Some (Concrete []) \<rparr>) st
     = (Inl (InvalidNameLength 0), st)"
  using constructor_error [of "props\<lparr> props_vpcIngressConnectionName := Some (Concrete []) \<rparr>"
      "InvalidNameLength 0" st]
  by simp

subsection \<open>Importing a connection\<close>

text \<open>
  C6: the import from attributes never fails, hands over no request, and returns a
  connection whose four fields are the four attributes given.
\<close>

theorem fromVpcIngressConnectionAttributes_copies:
  "\<exists>h. fromVpcIngressConnectionAttributes attrs st = (Inr h, st)
     \<and> vpcIngressConnectionArn h = Some (attrs_vpcIngressConnectionArn attrs)
     \<and> vpcIngressConnectionName h = Some (attrs_vpcIngressConnectionName attrs)
     \<and> domainName h = Some (attrs_domainName attrs)
     \<and> status h = Some (attrs_status attrs)"
  by (simp add: fromVpcIngressConnectionAttributes_def)

lemma fromArn_Concrete:
  "fromArn (Concrete s) st =
     (Inr \<lparr> vpcIngressConnectionArn = Some (Concrete s),
            vpcIngressConnectionName = Some (Concrete (takeWhile (\<lambda>c. c \<noteq> slash) s)),
            domainName = None, status = None \<rparr>, st)"
  by (simp only: fromArn_def Let_def Fn_select_split_Concrete)

lemma fromArn_Pending:
  "fromArn (Pending t) st =
     (Inr \<lparr> vpcIngressConnectionArn = Some (Pending t),
            vpcIngressConnectionName = Some (Pending (FnSelect 0 (FnSplit slash t))),
            domainName = None, status = None \<rparr>, st)"
  by (simp add: fromArn_def)

text \<open>
  C7: the import from an ARN never fails and hands over no request; the connection has
  the ARN as given, no domain name and no status, and its name is the first segment of the
  ARN split at \<open>/\<close>: for a concrete ARN everything before the first \<open>/\<close>, for a
  placeholder the deferred selection of segment 0 of the deferred split.
\<close>

theorem fromArn_first_segment:
  "\<exists>h. fromArn arn st = (Inr h, st)
     \<and> vpcIngressConnectionArn h = Some arn
     \<and> vpcIngressConnectionName h =
         (case arn of
            Concrete s \<Rightarrow> Some (Concrete (takeWhile (\<lambda>c. c \<noteq> slash) s))
          | Pending t \<Rightarrow> Some (Pending (FnSelect 0 (FnSplit slash t))))
     \<and> domainName h = None \<and> status h = None"
  by (cases arn) (simp_all add: fromArn_Concrete fromArn_Pending)

text \<open>
  C8: for a concrete ARN without any \<open>/\<close> the import does not fail, and the name of the
  connection is the whole ARN.
\<close>

theorem fromArn_without_slash:
  assumes "slash \<notin> set s"
  shows "\<exists>h. fromArn (Concrete s) st = (Inr h, st)
     \<and> vpcIngressConnectionName h = Some (Concrete s)"
proof -
  from assms have "takeWhile (\<lambda>c. c \<noteq> slash) s = s"
    by auto
  then show ?thesis
    by (simp add: fromArn_Concrete)
qed

theorem fromArn_without_slash_witness:
  "slash \<notin> set (ascii ''myconn'')
   \<and> (\<exists>h. fromArn (Concrete (ascii ''myconn'')) [] = (Inr h, [])
        \<and> vpcIngressConnectionName h = Some (Concrete (ascii ''myconn'')))"
proof -
  have no: "slash \<notin> set (ascii ''myconn'')"
    by (simp add: ascii_def slash_def)
  from no fromArn_without_slash [OF no, of "[]"] show ?thesis
    by simp
qed

lemma example_arn_first_segment:
  "takeWhile (\<lambda>c. c \<noteq> slash)
     (ascii ''arn:aws:apprunner:us-east-1:123456789012:vpcingressconnection/myconn/abcd1234'')
   = ascii ''arn:aws:apprunner:us-east-1:123456789012:vpcingressconnection''"
  by (simp add: ascii_def slash_def)

text \<open>
  C2, without the name: for the ARN
  \<^verbatim>\<open>arn:aws:apprunner:us-east-1:123456789012:vpcingressconnection/myconn/abcd1234\<close> the
  import does not fail and hands over no request, and the connection has the ARN as given,
  no domain name and no status.
\<close>

theorem fromArn_example_arn_verbatim:
  "\<exists>h. fromArn (Concrete (ascii ''arn:aws:apprunner:us-east-1:123456789012:vpcingressconnection/myconn/abcd1234'')) st
          = (Inr h, st)
     \<and> vpcIngressConnectionArn h = Some (Concrete (ascii ''arn:aws:apprunner:us-east-1:123456789012:vpcingressconnection/myconn/abcd1234''))
     \<and> domainName h = None \<and> status h = None"
  by (simp add: fromArn_Concrete)

text \<open>
  The name of that connection is not \<^verbatim>\<open>vpcingressconnection\<close>: the import does not return
  the connection that C2 describes. What it returns as the name is the part of the ARN before
  the first \<open>/\<close>, 61 characters with colons, which is not the name \<^verbatim>\<open>myconn\<close> of the
  connection and which the constructor's own length test refuses.
\<close>

lemma fromArn_example_name_refused:
  "check_name (vpcIngressConnectionName
     (projr (fst (fromArn (Concrete (ascii ''arn:aws:apprunner:us-east-1:123456789012:vpcingressconnection/myconn/abcd1234'')) []))))
   = Some (InvalidNameLength 61)"
  by (simp add: fromArn_Concrete example_arn_first_segment) (simp add: ascii_def)

theorem fromArn_example_name_differs:
  "fst (fromArn (Concrete (ascii ''arn:aws:apprunner:us-east-1:123456789012:vpcingressconnection/myconn/abcd1234'')) [])
   \<noteq> Inr \<lparr> vpcIngressConnectionArn = Some (Concrete (ascii ''arn:aws:apprunner:us-east-1:123456789012:vpcingressconnection/myconn/abcd1234'')),
            vpcIngressConnectionName = Some (Concrete (ascii ''vpcingressconnection'')),
            domainName = None, status = None \<rparr>"
proof -
  have "ascii ''arn:aws:apprunner:us-east-1:123456789012:vpcingressconnection''
      \<noteq> ascii ''vpcingressconnection''"
    by (simp add: ascii_def)
  then show ?thesis
    by (simp add: fromArn_Concrete example_arn_first_segment)
qed

end
